theory Spec2Isabelle
  imports Complex_Main "HOL-Library.Multiset" "HOL-Library.Char_ord" "HOL-Library.List_Lexorder"
begin

section \<open>Values\<close>

text \<open>
  The client of \<^verbatim>\<open>src/lib/index.ts\<close> polls the HTTP interface of VLC. The bodies it
  receives are parsed by \<^verbatim>\<open>JSON.parse\<close>; a parsed body is a value of type \<open>json\<close>. An
  object is the list of its fields in the order of \<^verbatim>\<open>Object.keys\<close>. JavaScript numbers are
  modelled as reals (rounding of doubles is not modelled), strings as byte strings (the
  UTF-8 encoding of the JavaScript string).
\<close>

datatype json =
    JNull
  | JBool bool
  | JNumber real
  | JString string
  | JArray "json list"
  | JObject "(string \<times> json) list"

text \<open>
  What a promise rejects with, or what a \<^verbatim>\<open>throw\<close> throws. \<open>TransportError\<close> and
  \<open>DecodeError\<close> are the two ways \<^verbatim>\<open>get\<close> rejects (lines 184, 190, 195), \<open>HandlerError\<close> is
  a value thrown by a subscriber's listener, \<open>UnhandledError\<close> is what the emitter throws for
  an \<^verbatim>\<open>error\<close> event without listener whose argument is not an error.
\<close>

datatype error =
    TransportError string
  | DecodeError string
  | HandlerError string
  | UnhandledError

text \<open>How a promise settles.\<close>

datatype 'a outcome = Resolved 'a | Rejected error

text \<open>
  JavaScript's truthiness of a parsed value, and \<^verbatim>\<open>a || b\<close> on parsed values, as in
  \<^verbatim>\<open>this._status || status\<close>.
\<close>

fun truthy :: "json \<Rightarrow> bool" where
  "truthy JNull = False"
| "truthy (JBool b) = b"
| "truthy (JNumber x) = (x \<noteq> 0)"
| "truthy (JString s) = (s \<noteq> [])"
| "truthy (JArray xs) = True"
| "truthy (JObject kvs) = True"

definition or_else :: "json \<Rightarrow> json \<Rightarrow> json" where
  "or_else a b = (if truthy a then a else b)"

text \<open>
  Modelled from the spec: the function \<^verbatim>\<open>equal\<close> is the default export of the package
  \<^verbatim>\<open>deep-equal\<close> (line 1), whose code is not among the sources. The spec describes it as
  full structural (deep) equality, a recursive value equality over numbers, booleans,
  strings, ordered sequences and keyed mappings, for which objects with the same fields
  in a different key insertion order are equal. Two objects are equal when they have the
  same number of fields and every field of the first is a field of the second with an
  equal value.
\<close>

fun equal :: "json \<Rightarrow> json \<Rightarrow> bool" where
  "equal JNull b = (b = JNull)"
| "equal (JBool x) b = (b = JBool x)"
| "equal (JNumber x) b = (b = JNumber x)"
| "equal (JString x) b = (b = JString x)"
| "equal (JArray xs) b =
     (case b of JArray ys \<Rightarrow> list_all2 equal xs ys | _ \<Rightarrow> False)"
| "equal (JObject kvs) b =
     (case b of
        JObject kvs' \<Rightarrow>
          length kvs = length kvs' \<and>
          list_all (\<lambda>kv. case map_of kvs' (fst kv) of
                            None \<Rightarrow> False
                          | Some v' \<Rightarrow> equal (snd kv) v') kvs
      | _ \<Rightarrow> False)"

text \<open>
  What \<^verbatim>\<open>JSON.parse\<close> returns: no object has the same key twice, at any depth.
\<close>

fun parsed :: "json \<Rightarrow> bool" where
  "parsed (JArray xs) = list_all parsed xs"
| "parsed (JObject kvs) = (distinct (map fst kvs) \<and> list_all (\<lambda>kv. parsed (snd kv)) kvs)"
| "parsed JNull = True"
| "parsed (JBool b) = True"
| "parsed (JNumber x) = True"
| "parsed (JString s) = True"

text \<open>
  The structure of a value with the key insertion order taken away: the fields of every
  object, at any depth, sorted by key. Two values are structurally equal, in the words of
  the spec, when they are the same up to the order of keys: when \<open>sort_keys\<close> maps them
  to the same value.
\<close>

fun sort_keys :: "json \<Rightarrow> json" where
  "sort_keys (JArray xs) = JArray (map sort_keys xs)"
| "sort_keys (JObject kvs) =
     JObject (sort_key fst (map (\<lambda>kv. (fst kv, sort_keys (snd kv))) kvs))"
| "sort_keys JNull = JNull"
| "sort_keys (JBool b) = JBool b"
| "sort_keys (JNumber x) = JNumber x"
| "sort_keys (JString s) = JString s"

section \<open>The query string\<close>

text \<open>
  The values the action layer passes as parameters of a command: a string, a number, a
  boolean, or \<^verbatim>\<open>undefined\<close> (an optional argument that was left out, as \<^verbatim>\<open>option\<close> of
  \<^verbatim>\<open>addToQueueAndPlay\<close>). Numbers are modelled as the integers JavaScript prints in plain
  decimal notation.
\<close>

datatype param = PUndefined | PString string | PNumber int | PBool bool

type_synonym params = "(string \<times> param) list"

fun decimal :: "nat \<Rightarrow> string" where
  "decimal n =
     (if n < 10 then [''0123456789'' ! n]
      else decimal (n div 10) @ [''0123456789'' ! (n mod 10)])"

declare decimal.simps [simp del]

text \<open>
  \<^verbatim>\<open>querystring.stringify\<close> belongs to Node.js, not to the repository. Its documented
  behaviour is modelled: a string, a finite number and a boolean are written out, and
  \<^emph>\<open>any other value is coerced to the empty string\<close>; keys and values are percent-encoded
  by \<^verbatim>\<open>querystring.escape\<close>, which leaves the letters, the digits and
  \<^verbatim>\<open>- _ . ! ~ * ' ( )\<close> as they are and writes every other byte as \<^verbatim>\<open>%XX\<close>; the fields
  \<^verbatim>\<open>key=value\<close> are joined with \<^verbatim>\<open>&\<close> in the order of \<^verbatim>\<open>Object.keys\<close>.
\<close>

fun stringifyPrimitive :: "param \<Rightarrow> string" where
  "stringifyPrimitive (PString s) = s"
| "stringifyPrimitive (PNumber n) =
     (if n < 0 then ''-'' @ decimal (nat (- n)) else decimal (nat n))"
| "stringifyPrimitive (PBool b) = (if b then ''true'' else ''false'')"
| "stringifyPrimitive PUndefined = []"

definition noEscape :: "char \<Rightarrow> bool" where
  "noEscape c =
     (let n = (of_char c :: nat) in
        (48 \<le> n \<and> n \<le> 57) \<or> (65 \<le> n \<and> n \<le> 90) \<or> (97 \<le> n \<and> n \<le> 122) \<or>
        n = 33 \<or> (39 \<le> n \<and> n \<le> 42) \<or> n = 45 \<or> n = 46 \<or> n = 95 \<or> n = 126)"

definition hexTable :: "char \<Rightarrow> string" where
  "hexTable c =
     (let n = (of_char c :: nat) in
        [CHR ''%'', ''0123456789ABCDEF'' ! (n div 16), ''0123456789ABCDEF'' ! (n mod 16)])"

definition escape :: "string \<Rightarrow> string" where
  "escape s = concat (map (\<lambda>c. if noEscape c then [c] else hexTable c) s)"

definition stringify_field :: "string \<times> param \<Rightarrow> string" where
  "stringify_field kv = escape (fst kv) @ ''='' @ escape (stringifyPrimitive (snd kv))"

fun join :: "string list \<Rightarrow> string" where
  "join [] = []"
| "join [f] = f"
| "join (f # g # fs) = f @ ''&'' @ join (g # fs)"

definition stringify :: "params \<Rightarrow> string" where
  "stringify obj = join (map stringify_field obj)"

text \<open>
  The object literal \<^verbatim>\<open>{ command, ...options }\<close> of line 289: the property \<^verbatim>\<open>command\<close>
  comes first, then every own property of \<^verbatim>\<open>options\<close> is assigned in order, also one whose
  value is \<^verbatim>\<open>undefined\<close>. Assigning a key the object has already keeps its place and
  replaces its value. (Keys that are array indices, which JavaScript lists first, do not
  occur among the keys the action layer uses and are not modelled.)
\<close>

fun assign :: "params \<Rightarrow> string \<Rightarrow> param \<Rightarrow> params" where
  "assign [] k v = [(k, v)]"
| "assign ((k', v') # obj) k v =
     (if k' = k then (k, v) # obj else (k', v') # assign obj k v)"

fun spread :: "params \<Rightarrow> params \<Rightarrow> params" where
  "spread obj [] = obj"
| "spread obj ((k, v) # options) = spread (assign obj k v) options"

section \<open>The command dispatcher\<close>

datatype CommandScope = BROWSE | STATUS | PLAYLIST

fun scope_path :: "CommandScope \<Rightarrow> string" where
  "scope_path BROWSE = ''/requests/browse.json''"
| "scope_path STATUS = ''/requests/status.json''"
| "scope_path PLAYLIST = ''/requests/playlist.json''"

text \<open>
  The fields of a \<^verbatim>\<open>VLC\<close> object (lines 200 to 212). The \<^verbatim>\<open>Authorization\<close> header is left
  out: no property below depends on it. The cache cells \<open>status\<close> and \<open>playlist\<close> start as
  \<^verbatim>\<open>null\<close>.
\<close>

record vlc =
  host :: string
  port :: nat
  autoUpdate :: bool
  changeEvents :: bool
  tickLengthMs :: real
  tickLengthNano :: real
  longWaitMs :: real
  longWaitNano :: real
  prev :: real
  target :: real
  status :: json
  playlist :: json

text \<open>The options \<^verbatim>\<open>get\<close> is called with (lines 294 to 301).\<close>

record request =
  req_host :: string
  req_port :: nat
  req_path :: string

text \<open>
  \<^verbatim>\<open>_sendCommand\<close> (lines 281 to 302). \<open>command\<close> and \<open>options\<close> are \<open>None\<close> when the
  argument is left out or \<^verbatim>\<open>null\<close>; a string is truthy when it is not empty. The local
  \<^verbatim>\<open>query\<close> starts as \<^verbatim>\<open>null\<close> (\<open>query0\<close>); the second branch (\<open>no_command\<close>) tests
  \<^verbatim>\<open>query\<close>, as the source does. The function returns the promise of \<^verbatim>\<open>get\<close>:
  the model returns the request and how the transport settles it, \<open>response\<close>, which is
  an input.
\<close>

definition sendCommand ::
  "vlc \<Rightarrow> CommandScope \<Rightarrow> string option \<Rightarrow> params option \<Rightarrow> 'a outcome
    \<Rightarrow> request \<times> 'a outcome" where
  "sendCommand st scope command options response =
     (let query0 = None;
          obj = (case options of None \<Rightarrow> [] | Some os \<Rightarrow> os);
          no_command =
            (case query0 of
               None \<Rightarrow> query0
             | Some q \<Rightarrow> if q \<noteq> [] then Some (stringify obj) else query0);
          query =
            (case command of
               None \<Rightarrow> no_command
             | Some c \<Rightarrow>
                 if c \<noteq> [] then Some (stringify (spread [(''command'', PString c)] obj))
                 else no_command)
      in (\<lparr>req_host = host st, req_port = port st,
           req_path = scope_path scope @
             (case query of
                None \<Rightarrow> []
              | Some q \<Rightarrow> if q \<noteq> [] then ''?'' @ q else [])\<rparr>,
          response))"

text \<open>\<^verbatim>\<open>browse\<close> (lines 304 to 310) and \<^verbatim>\<open>addToQueueAndPlay\<close> (lines 360 to 370).\<close>

definition browse :: "vlc \<Rightarrow> string \<Rightarrow> json outcome \<Rightarrow> request \<times> json outcome" where
  "browse st path response =
     sendCommand st BROWSE None (Some [(''dir'', PString path)]) response"




definition addToQueue :: "vlc \<Rightarrow> string \<Rightarrow> json outcome \<Rightarrow> request \<times> json outcome" where
  "addToQueue st uri response =
     sendCommand st STATUS (Some ''in_enqueue'') (Some [(''input'', PString uri)]) response"

section \<open>Events\<close>

text \<open>
  \<^verbatim>\<open>VLC\<close> extends the \<^verbatim>\<open>EventEmitter\<close> of Node.js. A listener is modelled by what a call
  of it does to the emitting code: it returns (\<open>None\<close>) or throws (\<open>Some e\<close>); what else
  a listener does is not modelled. \<open>ls name\<close> are the listeners registered for \<open>name\<close>,
  in the order of registration. \<^verbatim>\<open>emit\<close> calls them in order and lets the first exception
  through; an \<^verbatim>\<open>error\<close> event without listener throws its argument (the documented
  behaviour of the emitter). The result is \<open>Some e\<close> when \<^verbatim>\<open>emit\<close> throws \<open>e\<close>.
\<close>

datatype arg = AJson json | ANumber real | AError error

type_synonym listener = "arg list \<Rightarrow> error option"

type_synonym listeners = "string \<Rightarrow> listener list"

fun run_listeners :: "listener list \<Rightarrow> arg list \<Rightarrow> error option" where
  "run_listeners [] args = None"
| "run_listeners (l # rest) args =
     (case l args of Some e \<Rightarrow> Some e | None \<Rightarrow> run_listeners rest args)"

definition emit :: "listeners \<Rightarrow> string \<Rightarrow> arg list \<Rightarrow> error option" where
  "emit ls name args =
     (if name = ''error'' \<and> ls name = [] then
        Some (case args of AError e # rest \<Rightarrow> e | _ \<Rightarrow> UnhandledError)
      else run_listeners (ls name) args)"

text \<open>
  What a piece of the client does besides changing its fields: the events it emits (every
  call of \<^verbatim>\<open>emit\<close>, with its arguments), the refresh \<^verbatim>\<open>_doTick\<close> starts, the timer it sets,
  and a promise nobody handles that rejects.
\<close>

datatype effect =
    Emit string "arg list"
  | UpdateAll
  | SetTimeout real
  | SetImmediate
  | UnhandledRejection error

text \<open>
  The pattern \<^verbatim>\<open>try { this.emit(name, ...) } catch (err) { this.emit('error', err) }\<close> of
  lines 316 to 320, 331 to 335 and 348 to 352: the effects, and the exception that leaves
  the statement (one thrown by the \<^verbatim>\<open>emit\<close> of the handler).
\<close>

definition try_emit :: "listeners \<Rightarrow> string \<Rightarrow> arg list \<Rightarrow> effect list \<times> error option" where
  "try_emit ls name args =
     (case emit ls name args of
        None \<Rightarrow> ([Emit name args], None)
      | Some err \<Rightarrow>
          ([Emit name args, Emit ''error'' [AError err]], emit ls ''error'' [AError err]))"

section \<open>The state cache and the change detector\<close>

text \<open>
  \<^verbatim>\<open>updateStatus\<close> (lines 312 to 325) and \<^verbatim>\<open>updatePlaylist\<close> (lines 327 to 340), from the
  call to the settling of the promise they return. \<open>response\<close> is how the transport
  settles the fetch. The result is the object's new state, the events emitted and how the
  promise settles.
\<close>

definition updateStatus ::
  "listeners \<Rightarrow> vlc \<Rightarrow> json outcome \<Rightarrow> vlc \<times> effect list \<times> json outcome" where
  "updateStatus ls st response =
     (case snd (sendCommand st STATUS None None response) of
        Rejected e \<Rightarrow> (st, [], Rejected e)
      | Resolved fetched \<Rightarrow>
          if changeEvents st \<and> \<not> equal fetched (status st) then
            (case try_emit ls ''statuschange''
                    [AJson (or_else (status st) fetched), AJson fetched] of
               (effs, Some err) \<Rightarrow> (st, effs, Rejected err)
             | (effs, None) \<Rightarrow> (st\<lparr>status := fetched\<rparr>, effs, Resolved fetched))
          else (st, [], Resolved fetched))"

definition updatePlaylist ::
  "listeners \<Rightarrow> vlc \<Rightarrow> json outcome \<Rightarrow> vlc \<times> effect list \<times> json outcome" where
  "updatePlaylist ls st response =
     (case snd (sendCommand st PLAYLIST None None response) of
        Rejected e \<Rightarrow> (st, [], Rejected e)
      | Resolved fetched \<Rightarrow>
          if changeEvents st \<and> \<not> equal fetched (playlist st) then
            (case try_emit ls ''playlistchange''
                    [AJson (or_else (playlist st) fetched), AJson fetched] of
               (effs, Some err) \<Rightarrow> (st, effs, Rejected err)
             | (effs, None) \<Rightarrow> (st\<lparr>playlist := fetched\<rparr>, effs, Resolved fetched))
          else (st, [], Resolved fetched))"

text \<open>
  \<^verbatim>\<open>updateAll\<close> (lines 342 to 355). Both fetches are issued at once; \<open>status_first\<close> says
  whose answer arrives first. Each refresh runs to its end whatever becomes of the other.
  \<^verbatim>\<open>Promise.all\<close> rejects with the first rejection, at once, and resolves when both have
  resolved. The result is the new state, the events emitted until the promise of
  \<^verbatim>\<open>updateAll\<close> settles, how it settles, and the events emitted after that (by the refresh
  still under way when the other has failed).
\<close>

definition updateAll ::
  "listeners \<Rightarrow> vlc \<Rightarrow> json outcome \<Rightarrow> json outcome \<Rightarrow> bool
    \<Rightarrow> vlc \<times> effect list \<times> (json \<times> json) outcome \<times> effect list" where
  "updateAll ls st status_response playlist_response status_first =
     (let (st1, effs1, first) =
            (if status_first then updateStatus ls st status_response
             else updatePlaylist ls st playlist_response);
          (st2, effs2, second) =
            (if status_first then updatePlaylist ls st1 playlist_response
             else updateStatus ls st1 status_response)
      in case first of
           Rejected e \<Rightarrow> (st2, effs1, Rejected e, effs2)
         | Resolved a \<Rightarrow>
             (case second of
                Rejected e \<Rightarrow> (st2, effs1 @ effs2, Rejected e, [])
              | Resolved b \<Rightarrow>
                  (let s = (if status_first then a else b);
                       p = (if status_first then b else a)
                   in case try_emit ls ''update'' [AJson s, AJson p] of
                        (effs, Some err) \<Rightarrow> (st2, effs1 @ effs2 @ effs, Rejected err, [])
                      | (effs, None) \<Rightarrow> (st2, effs1 @ effs2 @ effs, Resolved (s, p), []))))"

section \<open>The tick scheduler\<close>

definition s2nano :: real where
  "s2nano = 1000000000"

definition ms2nano :: real where
  "ms2nano = 1000000"

definition nano2s :: real where
  "nano2s = 1 / s2nano"

text \<open>
  \<^verbatim>\<open>_doTick\<close> (lines 257 to 279). \<open>now\<close> and \<open>now'\<close> are the two readings of the clock
  (\<^verbatim>\<open>getNano()\<close>, lines 258 and 269), in nanoseconds. The result is the new state, the
  effects, and the exception that leaves \<^verbatim>\<open>_doTick\<close> when a listener of \<^verbatim>\<open>tick\<close> throws. The
  refresh of line 266 is started (\<open>UpdateAll\<close>) and not awaited; \<open>doTick_updateAll\<close> below
  is what becomes of it.
\<close>

definition wait :: "vlc \<Rightarrow> real \<Rightarrow> effect" where
  "wait st now' =
     (let remainingInTick = target st - now' in
        if remainingInTick > longWaitNano st
        then SetTimeout (max (longWaitMs st) (tickLengthMs st))
        else SetImmediate)"

definition doTick :: "listeners \<Rightarrow> vlc \<Rightarrow> real \<Rightarrow> real \<Rightarrow> vlc \<times> effect list \<times> error option" where
  "doTick ls st now now' =
     (if now \<ge> target st then
        (let delta = (now - prev st) * nano2s;
             st1 = st\<lparr>prev := now, target := now + tickLengthNano st\<rparr>
         in case emit ls ''tick'' [ANumber delta] of
              Some err \<Rightarrow> (st1, [Emit ''tick'' [ANumber delta]], Some err)
            | None \<Rightarrow> (st1, [Emit ''tick'' [ANumber delta], UpdateAll, wait st1 now'], None))
      else (st, [wait st now'], None))"

text \<open>
  \<^verbatim>\<open>this.updateAll().catch(err => this.emit('error', err))\<close> of line 266, from the start of
  the refresh to its end. The promise \<^verbatim>\<open>catch\<close> returns is dropped: when the handler throws
  (an \<^verbatim>\<open>error\<close> event nobody listens to), the rejection is unhandled.
\<close>

definition doTick_updateAll ::
  "listeners \<Rightarrow> vlc \<Rightarrow> json outcome \<Rightarrow> json outcome \<Rightarrow> bool \<Rightarrow> vlc \<times> effect list" where
  "doTick_updateAll ls st status_response playlist_response status_first =
     (case updateAll ls st status_response playlist_response status_first of
        (st', before, Resolved both, after) \<Rightarrow> (st', before @ after)
      | (st', before, Rejected err, after) \<Rightarrow>
          (st', before @ [Emit ''error'' [AError err]] @
                (case emit ls ''error'' [AError err] of
                   None \<Rightarrow> []
                 | Some err' \<Rightarrow> [UnhandledRejection err']) @ after))"

section \<open>Construction\<close>

text \<open>
  The options of the constructor (lines 142 to 156): \<open>None\<close> is a property left out.
  \<^verbatim>\<open>username\<close> and \<^verbatim>\<open>password\<close> only feed the \<^verbatim>\<open>Authorization\<close> header.
\<close>

record VLCOptions =
  opt_host :: "string option"
  opt_port :: "nat option"
  opt_autoUpdate :: "bool option"
  opt_tickLengthMs :: "real option"
  opt_changeEvents :: "bool option"

text \<open>
  The constructor (lines 214 to 255), up to the sending of the probe: the fields, and the
  request of the probe with its promise. \<open>now\<close> is the reading of the clock of line 238.
  \<^verbatim>\<open>a || b\<close> takes \<^verbatim>\<open>b\<close> when \<^verbatim>\<open>a\<close> is left out, the empty string or zero.
\<close>

definition constructor ::
  "VLCOptions \<Rightarrow> real \<Rightarrow> json outcome \<Rightarrow> vlc \<times> request \<times> json outcome" where
  "constructor options now response =
     (let tick0 = (case opt_tickLengthMs options of
                     None \<Rightarrow> 1000 / 30
                   | Some t \<Rightarrow> if t = 0 then 1000 / 30 else t);
          tick = (if tick0 < 16 then 16 else tick0);
          long = of_int \<lfloor>tick - 1\<rfloor>;
          st = \<lparr>host = (case opt_host options of
                         None \<Rightarrow> ''127.0.0.1''
                       | Some h \<Rightarrow> if h = [] then ''127.0.0.1'' else h),
                port = (case opt_port options of
                         None \<Rightarrow> 8080
                       | Some p \<Rightarrow> if p = 0 then 8080 else p),
                autoUpdate = (case opt_autoUpdate options of None \<Rightarrow> True | Some b \<Rightarrow> b),
                changeEvents = (case opt_changeEvents options of None \<Rightarrow> True | Some b \<Rightarrow> b),
                tickLengthMs = tick,
                tickLengthNano = tick * ms2nano,
                longWaitMs = long,
                longWaitNano = long * ms2nano,
                prev = now,
                target = now,
                status = JNull,
                playlist = JNull\<rparr>
      in (st, sendCommand st STATUS None None response))"

text \<open>
  The rest of the constructor (lines 247 to 254), run when the probe settles:
  \<^verbatim>\<open>.catch(this.emit.bind(this, 'error')).then(() => { if (this._autoUpdate) this._doTick() })\<close>.
  The promise of \<^verbatim>\<open>catch\<close> resolves when its handler returns and rejects when it throws;
  \<^verbatim>\<open>then\<close> runs its callback only in the first case. The last promise is dropped.
\<close>

definition constructor_probe ::
  "listeners \<Rightarrow> vlc \<Rightarrow> json outcome \<Rightarrow> real \<Rightarrow> real \<Rightarrow> vlc \<times> effect list" where
  "constructor_probe ls st probe now now' =
     (let (caught, thrown) =
            (case probe of
               Resolved v \<Rightarrow> ([], None)
             | Rejected e \<Rightarrow> ([Emit ''error'' [AError e]], emit ls ''error'' [AError e]))
      in case thrown of
           Some err \<Rightarrow> (st, caught @ [UnhandledRejection err])
         | None \<Rightarrow>
             if autoUpdate st then
               (case doTick ls st now now' of
                  (st', effs, None) \<Rightarrow> (st', caught @ effs)
                | (st', effs, Some err) \<Rightarrow> (st', caught @ effs @ [UnhandledRejection err]))
             else (st, caught))"

section \<open>Observations\<close>

text \<open>The options with every property left out, and the object built from them at time 0.\<close>

definition default_options :: VLCOptions where
  "default_options =
     \<lparr>opt_host = None, opt_port = None, opt_autoUpdate = None,
      opt_tickLengthMs = None, opt_changeEvents = None\<rparr>"

definition vlc0 :: vlc where
  "vlc0 = fst (constructor default_options 0 (Resolved JNull))"

text \<open>An effect is the emission of the event \<open>name\<close>.\<close>

fun is_event :: "string \<Rightarrow> effect \<Rightarrow> bool" where
  "is_event name (Emit n args) = (n = name)"
| "is_event name UpdateAll = False"
| "is_event name (SetTimeout ms) = False"
| "is_event name SetImmediate = False"
| "is_event name (UnhandledRejection e) = False"

text \<open>
  An effect of \<^verbatim>\<open>_doTick\<close>: every call of it that returns sets a timer, and a call that
  throws has emitted \<^verbatim>\<open>tick\<close>.
\<close>

fun loop_effect :: "effect \<Rightarrow> bool" where
  "loop_effect (Emit n args) = (n = ''tick'')"
| "loop_effect UpdateAll = True"
| "loop_effect (SetTimeout ms) = True"
| "loop_effect SetImmediate = True"
| "loop_effect (UnhandledRejection e) = False"

section \<open>Basic facts\<close>

lemma vlc0_fields:
  "vlc0 = \<lparr>host = ''127.0.0.1'', port = 8080, autoUpdate = True, changeEvents = True,
     tickLengthMs = 100 / 3, tickLengthNano = 100000000 / 3,
     longWaitMs = 32, longWaitNano = 32000000,
     prev = 0, target = 0, status = JNull, playlist = JNull\<rparr>"
  by (simp add: vlc0_def constructor_def default_options_def ms2nano_def Let_def)

lemma snd_sendCommand [simp]: "snd (sendCommand st scope command options response) = response"
  by (simp add: sendCommand_def Let_def)





section \<open>The command dispatcher: what is sent\<close>




text \<open>
  Claim C6 against the code: without a command name the local \<^verbatim>\<open>query\<close> is still
  \<^verbatim>\<open>null\<close> when line 290 tests it, so the parameters are never serialized. Whatever the
  directory, \<^verbatim>\<open>browse\<close> requests the bare path, without \<^verbatim>\<open>dir\<close>.
\<close>

theorem browse_request_has_no_dir:
  "req_path (fst (browse st path response)) = ''/requests/browse.json''"
  by (simp add: browse_def sendCommand_def)

section \<open>The tick scheduler: the next target\<close>

text \<open>
  Claim C2, as the code has it. At a fire (the clock reads \<open>now\<close>, at or past the
  target) the next target is \<open>now\<close> plus one tick period, and \<open>now\<close> becomes the previous
  fire time. The target so advances by one period plus the lateness of the fire; it
  advances by exactly one period only when the fire is exactly on time.
\<close>

theorem doTick_target_from_now:
  assumes "target st \<le> now"
  shows "target (fst (doTick ls st now now')) = now + tickLengthNano st
    \<and> prev (fst (doTick ls st now now')) = now
    \<and> target (fst (doTick ls st now now')) - target st = tickLengthNano st + (now - target st)
    \<and> (target (fst (doTick ls st now now')) = target st + tickLengthNano st \<longleftrightarrow> now = target st)"
  using assms by (auto simp: doTick_def Let_def split: option.splits)

theorem doTick_target_from_now_witness:
  "target (fst (doTick (\<lambda>name. []) vlc0 5000000 5000001)) = 5000000 + 100000000 / 3
   \<and> prev (fst (doTick (\<lambda>name. []) vlc0 5000000 5000001)) = 5000000"
  using doTick_target_from_now [of vlc0 5000000 "\<lambda>name. []" 5000001]
  by (simp add: vlc0_fields)

text \<open>
  Claim C2 as stated fails: a fire 5 ms after the target moves the target by 5 ms more
  than one period.
\<close>

theorem doTick_target_not_previous_plus_period:
  "target (fst (doTick (\<lambda>name. []) vlc0 5000000 5000001)) \<noteq> target vlc0 + tickLengthNano vlc0"
  by (simp add: doTick_def vlc0_fields Let_def emit_def)

section \<open>The refresh functions: basic facts\<close>

lemma updateStatus_Rejected [simp]: "updateStatus ls st (Rejected e) = (st, [], Rejected e)"
  by (simp add: updateStatus_def)

lemma updatePlaylist_Rejected [simp]: "updatePlaylist ls st (Rejected e) = (st, [], Rejected e)"
  by (simp add: updatePlaylist_def)

lemma updateStatus_Resolved:
  assumes "updateStatus ls st r = (st', effs, Resolved v)"
  shows "r = Resolved v"
proof (cases r)
  case (Resolved w)
  obtain effs0 thrown where
    "try_emit ls ''statuschange'' [AJson (or_else (status st) w), AJson w] = (effs0, thrown)"
    by (cases "try_emit ls ''statuschange'' [AJson (or_else (status st) w), AJson w]")
  with assms Resolved show ?thesis
    by (cases thrown) (simp_all add: updateStatus_def split: if_splits)
next
  case (Rejected e)
  with assms show ?thesis by simp
qed

lemma updatePlaylist_Resolved:
  assumes "updatePlaylist ls st r = (st', effs, Resolved v)"
  shows "r = Resolved v"
proof (cases r)
  case (Resolved w)
  obtain effs0 thrown where
    "try_emit ls ''playlistchange'' [AJson (or_else (playlist st) w), AJson w] = (effs0, thrown)"
    by (cases "try_emit ls ''playlistchange'' [AJson (or_else (playlist st) w), AJson w]")
  with assms Resolved show ?thesis
    by (cases thrown) (simp_all add: updatePlaylist_def split: if_splits)
next
  case (Rejected e)
  with assms show ?thesis by simp
qed

lemma try_emit_other:
  "name \<noteq> other \<Longrightarrow> other \<noteq> ''error'' \<Longrightarrow>
   filter (is_event other) (fst (try_emit ls name args)) = []"
  by (simp add: try_emit_def split: option.splits)

lemma try_emit_update:
  "filter (is_event ''update'') (fst (try_emit ls ''update'' args)) = [Emit ''update'' args]"
  by (simp add: try_emit_def split: option.splits)

lemma updateStatus_no_update:
  "filter (is_event ''update'') (fst (snd (updateStatus ls st r))) = []"
proof (cases r)
  case (Resolved w)
  have "filter (is_event ''update'')
          (fst (try_emit ls ''statuschange'' [AJson (or_else (status st) w), AJson w])) = []"
    by (rule try_emit_other) simp_all
  with Resolved show ?thesis
    by (auto simp: updateStatus_def split: prod.splits option.splits)
next
  case (Rejected e)
  then show ?thesis by simp
qed

lemma updatePlaylist_no_update:
  "filter (is_event ''update'') (fst (snd (updatePlaylist ls st r))) = []"
proof (cases r)
  case (Resolved w)
  have "filter (is_event ''update'')
          (fst (try_emit ls ''playlistchange'' [AJson (or_else (playlist st) w), AJson w])) = []"
    by (rule try_emit_other) simp_all
  with Resolved show ?thesis
    by (auto simp: updatePlaylist_def split: prod.splits option.splits)
next
  case (Rejected e)
  then show ?thesis by simp
qed

lemma updateStatus_effects_no_update:
  "updateStatus ls st r = (st', effs, out) \<Longrightarrow> filter (is_event ''update'') effs = []"
  using updateStatus_no_update [of ls st r] by simp

lemma updatePlaylist_effects_no_update:
  "updatePlaylist ls st r = (st', effs, out) \<Longrightarrow> filter (is_event ''update'') effs = []"
  using updatePlaylist_no_update [of ls st r] by simp

text \<open>\<^verbatim>\<open>updateAll\<close> in terms of its two refreshes, for either order of the answers.\<close>

lemma updateAll_status_first:
  assumes "updateStatus ls st rs = (st1, effs1, o1)"
      and "updatePlaylist ls st1 rp = (st2, effs2, o2)"
  shows "updateAll ls st rs rp True =
     (case o1 of
        Rejected e \<Rightarrow> (st2, effs1, Rejected e, effs2)
      | Resolved s \<Rightarrow>
          (case o2 of
             Rejected e \<Rightarrow> (st2, effs1 @ effs2, Rejected e, [])
           | Resolved p \<Rightarrow>
               (st2, effs1 @ effs2 @ fst (try_emit ls ''update'' [AJson s, AJson p]),
                (case snd (try_emit ls ''update'' [AJson s, AJson p]) of
                   Some err \<Rightarrow> Rejected err
                 | None \<Rightarrow> Resolved (s, p)), [])))"
  using assms by (simp add: updateAll_def split: outcome.splits prod.splits option.splits)

lemma updateAll_playlist_first:
  assumes "updatePlaylist ls st rp = (st1, effs1, o1)"
      and "updateStatus ls st1 rs = (st2, effs2, o2)"
  shows "updateAll ls st rs rp False =
     (case o1 of
        Rejected e \<Rightarrow> (st2, effs1, Rejected e, effs2)
      | Resolved p \<Rightarrow>
          (case o2 of
             Rejected e \<Rightarrow> (st2, effs1 @ effs2, Rejected e, [])
           | Resolved s \<Rightarrow>
               (st2, effs1 @ effs2 @ fst (try_emit ls ''update'' [AJson s, AJson p]),
                (case snd (try_emit ls ''update'' [AJson s, AJson p]) of
                   Some err \<Rightarrow> Rejected err
                 | None \<Rightarrow> Resolved (s, p)), [])))"
  using assms by (simp add: updateAll_def split: outcome.splits prod.splits option.splits)

section \<open>The state cache: when the cell is written\<close>

text \<open>
  Claim C1, as the code has it. When \<^verbatim>\<open>updateStatus\<close> resolves after a successful fetch,
  it resolves with the fetched value; the cache cell is overwritten with it exactly when
  change events are enabled and the fetched value is not deep-equal to the cached one
  (the assignment of line 321 stands inside the \<^verbatim>\<open>if\<close> of line 315). Otherwise the object
  is left as it was. The same holds of \<^verbatim>\<open>updatePlaylist\<close>.
\<close>

theorem update_writes_cache_on_change_only:
  "(updateStatus ls st (Resolved v) = (st', effs, Resolved v') \<longrightarrow>
      v' = v \<and>
      st' = (if changeEvents st \<and> \<not> equal v (status st) then st\<lparr>status := v\<rparr> else st))
   \<and> (updatePlaylist ls st (Resolved v) = (st', effs, Resolved v') \<longrightarrow>
      v' = v \<and>
      st' = (if changeEvents st \<and> \<not> equal v (playlist st) then st\<lparr>playlist := v\<rparr> else st))"
  by (auto simp: updateStatus_def updatePlaylist_def split: if_splits prod.splits option.splits)

text \<open>
  The theorem on a first refresh with change events (the cell is written) and on a
  refresh without change events (the cell stays \<^verbatim>\<open>null\<close>).
\<close>

theorem update_writes_cache_on_change_only_witness:
  "updateStatus (\<lambda>name. []) vlc0 (Resolved (JBool True)) =
     (vlc0\<lparr>status := JBool True\<rparr>,
      [Emit ''statuschange'' [AJson (JBool True), AJson (JBool True)]], Resolved (JBool True))
   \<and> updatePlaylist (\<lambda>name. []) (vlc0\<lparr>changeEvents := False\<rparr>) (Resolved (JBool True)) =
     (vlc0\<lparr>changeEvents := False\<rparr>, [], Resolved (JBool True))"
  using update_writes_cache_on_change_only [of "\<lambda>name. []" vlc0 "JBool True"
      "vlc0\<lparr>status := JBool True\<rparr>"
      "[Emit ''statuschange'' [AJson (JBool True), AJson (JBool True)]]" "JBool True"]
    update_writes_cache_on_change_only [of "\<lambda>name. []" "vlc0\<lparr>changeEvents := False\<rparr>"
      "JBool True" "vlc0\<lparr>changeEvents := False\<rparr>" "[]" "JBool True"]
  by (simp add: updateStatus_def updatePlaylist_def vlc0_fields try_emit_def emit_def
      or_else_def)

text \<open>
  Claim C1 as stated fails: with change events disabled, a successful refresh returns
  the fetched value and leaves the cache cell \<^verbatim>\<open>null\<close>.
\<close>

theorem updateStatus_leaves_cache_without_changeEvents:
  "updateStatus (\<lambda>name. []) (vlc0\<lparr>changeEvents := False\<rparr>) (Resolved (JBool True)) =
     (vlc0\<lparr>changeEvents := False\<rparr>, [], Resolved (JBool True))
   \<and> status (fst (updateStatus (\<lambda>name. []) (vlc0\<lparr>changeEvents := False\<rparr>)
        (Resolved (JBool True)))) = JNull"
  by (simp add: updateStatus_def vlc0_fields)

section \<open>A listener that throws\<close>

text \<open>
  Claim C10, as the code has it. When a listener of \<^verbatim>\<open>statuschange\<close> throws \<open>err\<close>, the
  exception is caught and \<^verbatim>\<open>error\<close> is emitted with it. If that emission returns, the cell
  is overwritten and the call resolves with the fetched value. If it throws (\<open>err'\<close>: no
  listener of \<^verbatim>\<open>error\<close> is registered, or one throws), the call rejects with \<open>err'\<close> and
  the cell is not written. The same holds of \<^verbatim>\<open>updatePlaylist\<close> and \<^verbatim>\<open>playlistchange\<close>.
\<close>

theorem listener_exception_is_rerouted:
  "(changeEvents st \<and> \<not> equal v (status st) \<and>
      emit ls ''statuschange'' [AJson (or_else (status st) v), AJson v] = Some err \<longrightarrow>
    updateStatus ls st (Resolved v) =
      (case emit ls ''error'' [AError err] of
         None \<Rightarrow>
           (st\<lparr>status := v\<rparr>,
            [Emit ''statuschange'' [AJson (or_else (status st) v), AJson v],
             Emit ''error'' [AError err]], Resolved v)
       | Some err' \<Rightarrow>
           (st,
            [Emit ''statuschange'' [AJson (or_else (status st) v), AJson v],
             Emit ''error'' [AError err]], Rejected err')))
   \<and> (changeEvents st \<and> \<not> equal v (playlist st) \<and>
      emit ls ''playlistchange'' [AJson (or_else (playlist st) v), AJson v] = Some err \<longrightarrow>
    updatePlaylist ls st (Resolved v) =
      (case emit ls ''error'' [AError err] of
         None \<Rightarrow>
           (st\<lparr>playlist := v\<rparr>,
            [Emit ''playlistchange'' [AJson (or_else (playlist st) v), AJson v],
             Emit ''error'' [AError err]], Resolved v)
       | Some err' \<Rightarrow>
           (st,
            [Emit ''playlistchange'' [AJson (or_else (playlist st) v), AJson v],
             Emit ''error'' [AError err]], Rejected err')))"
  by (simp add: updateStatus_def updatePlaylist_def try_emit_def split: option.splits)

text \<open>
  The theorem with a listener of \<^verbatim>\<open>statuschange\<close> that throws and a listener of
  \<^verbatim>\<open>error\<close> that returns: the call resolves and the cell is written.
\<close>

theorem listener_exception_is_rerouted_witness:
  "updateStatus
     (\<lambda>name. if name = ''statuschange'' then [\<lambda>args. Some (HandlerError ''boom'')]
             else if name = ''error'' then [\<lambda>args. None] else [])
     vlc0 (Resolved (JBool True)) =
   (vlc0\<lparr>status := JBool True\<rparr>,
    [Emit ''statuschange'' [AJson (JBool True), AJson (JBool True)],
     Emit ''error'' [AError (HandlerError ''boom'')]], Resolved (JBool True))"
  using listener_exception_is_rerouted [of vlc0 "JBool True"
      "\<lambda>name. if name = ''statuschange'' then [\<lambda>args. Some (HandlerError ''boom'')]
              else if name = ''error'' then [\<lambda>args. None] else []"
      "HandlerError ''boom''"]
  by (simp add: vlc0_fields emit_def or_else_def)

text \<open>
  Claim C10 as stated fails: with a listener of \<^verbatim>\<open>statuschange\<close> that throws and no
  listener of \<^verbatim>\<open>error\<close>, the exception reaches the caller (the call rejects with it) and
  the cache cell stays \<^verbatim>\<open>null\<close>.
\<close>

theorem updateStatus_rejects_without_error_listener:
  "updateStatus
     (\<lambda>name. if name = ''statuschange'' then [\<lambda>args. Some (HandlerError ''boom'')] else [])
     vlc0 (Resolved (JBool True)) =
   (vlc0,
    [Emit ''statuschange'' [AJson (JBool True), AJson (JBool True)],
     Emit ''error'' [AError (HandlerError ''boom'')]], Rejected (HandlerError ''boom''))"
  by (simp add: updateStatus_def vlc0_fields try_emit_def emit_def or_else_def)

section \<open>The combined refresh\<close>

text \<open>
  Claim C8, as the code has it. Let the refresh whose answer arrives first end in \<open>o1\<close>
  and the other in \<open>o2\<close>. When both resolve, \<^verbatim>\<open>updateAll\<close> calls the listeners of \<^verbatim>\<open>update\<close>
  with the fetched status and playlist: exactly one \<^verbatim>\<open>update\<close> event is emitted, carrying
  the two. The call then resolves with the pair when the listeners return, and also when
  one throws and the emission of \<^verbatim>\<open>error\<close> with its exception returns; when that emission
  throws as well, the call rejects although both refreshes have succeeded. Conversely a
  call that resolves has resolved with the fetched pair after exactly one \<^verbatim>\<open>update\<close>
  event. When one of the two refreshes rejects, \<^verbatim>\<open>updateAll\<close> rejects with the (first)
  rejection and no \<^verbatim>\<open>update\<close> event is emitted.
\<close>

theorem updateAll_publishes_update:
  assumes first:
      "(if sf then updateStatus ls st rs else updatePlaylist ls st rp) = (st1, effs1, o1)"
    and second:
      "(if sf then updatePlaylist ls st1 rp else updateStatus ls st1 rs) = (st2, effs2, o2)"
    and all: "updateAll ls st rs rp sf = (st', before, out, after)"
  shows "(\<forall>a b. o1 = Resolved a \<and> o2 = Resolved b \<longrightarrow>
            (let s = (if sf then a else b); p = (if sf then b else a) in
               rs = Resolved s \<and> rp = Resolved p \<and>
               filter (is_event ''update'') (before @ after) =
                 [Emit ''update'' [AJson s, AJson p]] \<and>
               out =
                 (case emit ls ''update'' [AJson s, AJson p] of
                    None \<Rightarrow> Resolved (s, p)
                  | Some err \<Rightarrow>
                      (case emit ls ''error'' [AError err] of
                         None \<Rightarrow> Resolved (s, p)
                       | Some err' \<Rightarrow> Rejected err'))))
       \<and> (\<forall>s p. out = Resolved (s, p) \<longrightarrow>
            rs = Resolved s \<and> rp = Resolved p \<and>
            filter (is_event ''update'') (before @ after) =
              [Emit ''update'' [AJson s, AJson p]])
       \<and> (\<forall>e. o1 = Rejected e \<longrightarrow>
            out = Rejected e \<and> filter (is_event ''update'') (before @ after) = [])
       \<and> (\<forall>a e. o1 = Resolved a \<and> o2 = Rejected e \<longrightarrow>
            out = Rejected e \<and> filter (is_event ''update'') (before @ after) = [])"
proof (cases sf)
  case True
  with first second have f: "updateStatus ls st rs = (st1, effs1, o1)"
    and s: "updatePlaylist ls st1 rp = (st2, effs2, o2)" by simp_all
  note n1 = updateStatus_effects_no_update [OF f]
    and n2 = updatePlaylist_effects_no_update [OF s]
  note r1 = updateStatus_Resolved [of ls st rs st1 effs1]
    and r2 = updatePlaylist_Resolved [of ls st1 rp st2 effs2]
  from all True have "updateAll ls st rs rp True = (st', before, out, after)" by simp
  note res = this [unfolded updateAll_status_first [OF f s]]
  show ?thesis
    using res f s n1 n2 r1 r2 True
    by (cases o1; cases o2) (auto simp: try_emit_def Let_def split: option.splits)
next
  case False
  with first second have f: "updatePlaylist ls st rp = (st1, effs1, o1)"
    and s: "updateStatus ls st1 rs = (st2, effs2, o2)" by simp_all
  note n1 = updatePlaylist_effects_no_update [OF f]
    and n2 = updateStatus_effects_no_update [OF s]
  note r1 = updatePlaylist_Resolved [of ls st rp st1 effs1]
    and r2 = updateStatus_Resolved [of ls st1 rs st2 effs2]
  from all False have "updateAll ls st rs rp False = (st', before, out, after)" by simp
  note res = this [unfolded updateAll_playlist_first [OF f s]]
  show ?thesis
    using res f s n1 n2 r1 r2 False
    by (cases o1; cases o2) (auto simp: try_emit_def Let_def split: option.splits)
qed

text \<open>
  The theorem on a first refresh where both fetches succeed, the status first, with a
  listener of \<^verbatim>\<open>update\<close> that returns: one \<^verbatim>\<open>update\<close> event, after the two change events,
  and the call resolves with the pair.
\<close>

theorem updateAll_publishes_update_witness:
  "updateAll (\<lambda>name. if name = ''update'' then [\<lambda>args. None] else []) vlc0
      (Resolved (JBool True)) (Resolved (JBool False)) True =
     (vlc0\<lparr>status := JBool True, playlist := JBool False\<rparr>,
      [Emit ''statuschange'' [AJson (JBool True), AJson (JBool True)],
       Emit ''playlistchange'' [AJson (JBool False), AJson (JBool False)],
       Emit ''update'' [AJson (JBool True), AJson (JBool False)]],
      Resolved (JBool True, JBool False), [])
   \<and> filter (is_event ''update'')
       [Emit ''statuschange'' [AJson (JBool True), AJson (JBool True)],
        Emit ''playlistchange'' [AJson (JBool False), AJson (JBool False)],
        Emit ''update'' [AJson (JBool True), AJson (JBool False)]] =
     [Emit ''update'' [AJson (JBool True), AJson (JBool False)]]"
proof -
  let ?ls = "\<lambda>name. if name = ''update'' then [\<lambda>args. None] else []"
  have f: "(if True then updateStatus ?ls vlc0 (Resolved (JBool True))
            else updatePlaylist ?ls vlc0 (Resolved (JBool False))) =
      (vlc0\<lparr>status := JBool True\<rparr>,
       [Emit ''statuschange'' [AJson (JBool True), AJson (JBool True)]],
       Resolved (JBool True))"
    by (simp add: updateStatus_def vlc0_fields try_emit_def emit_def or_else_def)
  have s: "(if True
            then updatePlaylist ?ls (vlc0\<lparr>status := JBool True\<rparr>) (Resolved (JBool False))
            else updateStatus ?ls (vlc0\<lparr>status := JBool True\<rparr>) (Resolved (JBool True))) =
      (vlc0\<lparr>status := JBool True, playlist := JBool False\<rparr>,
       [Emit ''playlistchange'' [AJson (JBool False), AJson (JBool False)]],
       Resolved (JBool False))"
    by (simp add: updatePlaylist_def vlc0_fields try_emit_def emit_def or_else_def)
  have a: "updateAll ?ls vlc0 (Resolved (JBool True)) (Resolved (JBool False)) True =
     (vlc0\<lparr>status := JBool True, playlist := JBool False\<rparr>,
      [Emit ''statuschange'' [AJson (JBool True), AJson (JBool True)],
       Emit ''playlistchange'' [AJson (JBool False), AJson (JBool False)],
       Emit ''update'' [AJson (JBool True), AJson (JBool False)]],
      Resolved (JBool True, JBool False), [])"
    using f s by (simp add: updateAll_def try_emit_def emit_def Let_def)
  from updateAll_publishes_update [OF f s a] a show ?thesis by simp
qed

text \<open>
  Claim C8 as stated fails: both fetches succeed, a listener of \<^verbatim>\<open>update\<close> throws and no
  listener of \<^verbatim>\<open>error\<close> is registered. The \<^verbatim>\<open>update\<close> event is emitted, and the call
  rejects with the listener's exception instead of resolving with the pair.
\<close>

theorem updateAll_rejects_after_both_refreshes:
  "updateAll (\<lambda>name. if name = ''update'' then [\<lambda>args. Some (HandlerError ''boom'')] else [])
      vlc0 (Resolved (JBool True)) (Resolved (JBool False)) True =
     (vlc0\<lparr>status := JBool True, playlist := JBool False\<rparr>,
      [Emit ''statuschange'' [AJson (JBool True), AJson (JBool True)],
       Emit ''playlistchange'' [AJson (JBool False), AJson (JBool False)],
       Emit ''update'' [AJson (JBool True), AJson (JBool False)],
       Emit ''error'' [AError (HandlerError ''boom'')]],
      Rejected (HandlerError ''boom''), [])"
  by (simp add: updateAll_def updateStatus_def updatePlaylist_def vlc0_fields try_emit_def
      emit_def or_else_def Let_def)

section \<open>Where a transport failure goes\<close>

lemma updateStatus_quiet:
  assumes "\<forall>args. emit ls ''statuschange'' args = None"
    and "updateStatus ls st r = (st', effs, out)"
  shows "filter (is_event ''error'') effs = [] \<and> (\<forall>y. out = Rejected y \<longrightarrow> r = Rejected y)"
  using assms by (cases r) (auto simp: updateStatus_def try_emit_def split: if_splits)

lemma updatePlaylist_quiet:
  assumes "\<forall>args. emit ls ''playlistchange'' args = None"
    and "updatePlaylist ls st r = (st', effs, out)"
  shows "filter (is_event ''error'') effs = [] \<and> (\<forall>y. out = Rejected y \<longrightarrow> r = Rejected y)"
  using assms by (cases r) (auto simp: updatePlaylist_def try_emit_def split: if_splits)

lemma updateAll_status_failure:
  assumes p: "updatePlaylist ls st rp = (st_p, effs_p, o_p)"
  shows "updateAll ls st (Rejected e) rp sf =
     (st_p, (if sf then [] else effs_p),
      Rejected (if sf then e else case o_p of Rejected y \<Rightarrow> y | Resolved v \<Rightarrow> e),
      (if sf then effs_p else []))"
proof (cases sf)
  case True
  then show ?thesis
    using updateAll_status_first [of ls st "Rejected e" st "[]" "Rejected e" rp st_p effs_p o_p] p
    by simp
next
  case False
  then show ?thesis
    using updateAll_playlist_first [of ls st rp st_p effs_p o_p "Rejected e" st_p "[]" "Rejected e"] p
    by (simp split: outcome.splits)
qed

lemma updateAll_playlist_failure:
  assumes s: "updateStatus ls st rs = (st_s, effs_s, o_s)"
  shows "updateAll ls st rs (Rejected e) sf =
     (st_s, (if sf then effs_s else []),
      Rejected (if sf then case o_s of Rejected y \<Rightarrow> y | Resolved v \<Rightarrow> e else e),
      (if sf then [] else effs_s))"
proof (cases sf)
  case False
  then show ?thesis
    using updateAll_playlist_first [of ls st "Rejected e" st "[]" "Rejected e" rs st_s effs_s o_s] s
    by simp
next
  case True
  then show ?thesis
    using updateAll_status_first [of ls st rs st_s effs_s o_s "Rejected e" st_s "[]" "Rejected e"] s
    by (simp split: outcome.splits)
qed

text \<open>
  Claim C9, as the code has it. A transport failure \<open>e\<close> of a direct call: the promise of
  \<^verbatim>\<open>_sendCommand\<close> (which every action and \<^verbatim>\<open>browse\<close> return as it is) rejects with \<open>e\<close>;
  \<^verbatim>\<open>updateStatus\<close> and \<^verbatim>\<open>updatePlaylist\<close> reject with \<open>e\<close>, emit nothing and leave the
  object as it was. In \<^verbatim>\<open>updateAll\<close> the refresh whose fetch fails emits nothing, the call
  rejects with the first rejection \<open>x\<close> of its two refreshes (\<open>e\<close> when the failed fetch
  answers first or the other refresh resolves), and the events of the call are exactly
  those of the other refresh. The refresh the scheduler starts emits, besides these, one
  \<^verbatim>\<open>error\<close> event, which carries \<open>x\<close>; when the emission of that event throws, the
  promise of the chain is left rejected and unhandled. When no listener of the change
  event of the other refresh throws, that refresh emits no \<^verbatim>\<open>error\<close> event and rejects
  only with the transport failure of its own fetch: then the direct call emits no
  \<^verbatim>\<open>error\<close> event, and the scheduled refresh exactly one, which carries a transport
  failure.
\<close>

theorem transport_failure_routing:
  assumes playlist: "updatePlaylist ls st rp = (st_p, effs_p, o_p)"
      and status: "updateStatus ls st rs = (st_s, effs_s, o_s)"
  shows "snd (sendCommand st scope command options (Rejected e)) = Rejected e
     \<and> updateStatus ls st (Rejected e) = (st, [], Rejected e)
     \<and> updatePlaylist ls st (Rejected e) = (st, [], Rejected e)
     \<and> (let x = (if sf then e else case o_p of Rejected y \<Rightarrow> y | Resolved v \<Rightarrow> e) in
          updateAll ls st (Rejected e) rp sf =
            (st_p, (if sf then [] else effs_p), Rejected x, (if sf then effs_p else [])) \<and>
          doTick_updateAll ls st (Rejected e) rp sf =
            (st_p, (if sf then [] else effs_p) @ [Emit ''error'' [AError x]] @
                   (case emit ls ''error'' [AError x] of
                      None \<Rightarrow> []
                    | Some err \<Rightarrow> [UnhandledRejection err]) @
                   (if sf then effs_p else [])))
     \<and> (let x = (if sf then case o_s of Rejected y \<Rightarrow> y | Resolved v \<Rightarrow> e else e) in
          updateAll ls st rs (Rejected e) sf =
            (st_s, (if sf then effs_s else []), Rejected x, (if sf then [] else effs_s)) \<and>
          doTick_updateAll ls st rs (Rejected e) sf =
            (st_s, (if sf then effs_s else []) @ [Emit ''error'' [AError x]] @
                   (case emit ls ''error'' [AError x] of
                      None \<Rightarrow> []
                    | Some err \<Rightarrow> [UnhandledRejection err]) @
                   (if sf then [] else effs_s)))
     \<and> ((\<forall>args. emit ls ''playlistchange'' args = None) \<longrightarrow>
          filter (is_event ''error'') effs_p = [] \<and> (\<forall>y. o_p = Rejected y \<longrightarrow> rp = Rejected y))
     \<and> ((\<forall>args. emit ls ''statuschange'' args = None) \<longrightarrow>
          filter (is_event ''error'') effs_s = [] \<and> (\<forall>y. o_s = Rejected y \<longrightarrow> rs = Rejected y))"
proof -
  note a1 = updateAll_status_failure [OF playlist, of e sf]
  note a2 = updateAll_playlist_failure [OF status, of e sf]
  have d1: "doTick_updateAll ls st (Rejected e) rp sf =
      (let x = (if sf then e else case o_p of Rejected y \<Rightarrow> y | Resolved v \<Rightarrow> e) in
         (st_p, (if sf then [] else effs_p) @ [Emit ''error'' [AError x]] @
                (case emit ls ''error'' [AError x] of
                   None \<Rightarrow> []
                 | Some err \<Rightarrow> [UnhandledRejection err]) @
                (if sf then effs_p else [])))"
    by (simp add: doTick_updateAll_def a1 Let_def)
  have d2: "doTick_updateAll ls st rs (Rejected e) sf =
      (let x = (if sf then case o_s of Rejected y \<Rightarrow> y | Resolved v \<Rightarrow> e else e) in
         (st_s, (if sf then effs_s else []) @ [Emit ''error'' [AError x]] @
                (case emit ls ''error'' [AError x] of
                   None \<Rightarrow> []
                 | Some err \<Rightarrow> [UnhandledRejection err]) @
                (if sf then [] else effs_s)))"
    by (simp add: doTick_updateAll_def a2 Let_def)
  have q1: "(\<forall>args. emit ls ''playlistchange'' args = None) \<longrightarrow>
      filter (is_event ''error'') effs_p = [] \<and> (\<forall>y. o_p = Rejected y \<longrightarrow> rp = Rejected y)"
    using updatePlaylist_quiet [OF _ playlist] by blast
  have q2: "(\<forall>args. emit ls ''statuschange'' args = None) \<longrightarrow>
      filter (is_event ''error'') effs_s = [] \<and> (\<forall>y. o_s = Rejected y \<longrightarrow> rs = Rejected y)"
    using updateStatus_quiet [OF _ status] by blast
  have direct: "snd (sendCommand st scope command options (Rejected e)) = Rejected e
       \<and> updateStatus ls st (Rejected e) = (st, [], Rejected e)
       \<and> updatePlaylist ls st (Rejected e) = (st, [], Rejected e)"
    by simp
  have m1: "let x = (if sf then e else case o_p of Rejected y \<Rightarrow> y | Resolved v \<Rightarrow> e) in
          updateAll ls st (Rejected e) rp sf =
            (st_p, (if sf then [] else effs_p), Rejected x, (if sf then effs_p else [])) \<and>
          doTick_updateAll ls st (Rejected e) rp sf =
            (st_p, (if sf then [] else effs_p) @ [Emit ''error'' [AError x]] @
                   (case emit ls ''error'' [AError x] of
                      None \<Rightarrow> []
                    | Some err \<Rightarrow> [UnhandledRejection err]) @
                   (if sf then effs_p else []))"
    using a1 d1 by (simp add: Let_def)
  have m2: "let x = (if sf then case o_s of Rejected y \<Rightarrow> y | Resolved v \<Rightarrow> e else e) in
          updateAll ls st rs (Rejected e) sf =
            (st_s, (if sf then effs_s else []), Rejected x, (if sf then [] else effs_s)) \<and>
          doTick_updateAll ls st rs (Rejected e) sf =
            (st_s, (if sf then effs_s else []) @ [Emit ''error'' [AError x]] @
                   (case emit ls ''error'' [AError x] of
                      None \<Rightarrow> []
                    | Some err \<Rightarrow> [UnhandledRejection err]) @
                   (if sf then [] else effs_s))"
    using a2 d2 by (simp add: Let_def)
  from direct m1 m2 q1 q2 show ?thesis by blast
qed

text \<open>
  The theorem where the status fetch is refused, the playlist is fetched (and is
  \<^verbatim>\<open>null\<close>, as cached), and a listener of \<^verbatim>\<open>error\<close> is registered: the direct call rejects
  with the failure and emits nothing, the scheduled refresh emits one \<^verbatim>\<open>error\<close> event.
\<close>

theorem transport_failure_routing_witness:
  "updateAll (\<lambda>name. if name = ''error'' then [\<lambda>args. None] else []) vlc0
      (Rejected (TransportError ''ECONNREFUSED'')) (Resolved JNull) True =
     (vlc0, [], Rejected (TransportError ''ECONNREFUSED''), [])
   \<and> doTick_updateAll (\<lambda>name. if name = ''error'' then [\<lambda>args. None] else []) vlc0
      (Rejected (TransportError ''ECONNREFUSED'')) (Resolved JNull) True =
     (vlc0, [Emit ''error'' [AError (TransportError ''ECONNREFUSED'')]])"
proof -
  let ?ls = "\<lambda>name. if name = ''error'' then [\<lambda>args. None] else []"
  have p: "updatePlaylist ?ls vlc0 (Resolved JNull) = (vlc0, [], Resolved JNull)"
    by (simp add: updatePlaylist_def vlc0_fields)
  have s: "updateStatus ?ls vlc0 (Rejected (TransportError ''ECONNREFUSED'')) =
      (vlc0, [], Rejected (TransportError ''ECONNREFUSED''))"
    by simp
  from transport_failure_routing [OF p s, where e = "TransportError ''ECONNREFUSED''"
      and sf = True]
  show ?thesis by (simp add: emit_def Let_def)
qed

text \<open>
  Claim C9 as stated fails. In a direct \<^verbatim>\<open>updateAll\<close> whose status fetch is refused, with a
  listener of \<^verbatim>\<open>playlistchange\<close> that throws and a listener of \<^verbatim>\<open>error\<close>, an \<^verbatim>\<open>error\<close> event
  is emitted. In a scheduled refresh whose status fetch is refused, without listener of
  \<^verbatim>\<open>error\<close>, the emission of \<^verbatim>\<open>error\<close> throws and a promise is left rejected.
\<close>

theorem transport_failure_error_event_and_unhandled_rejection:
  "updateAll
     (\<lambda>name. if name = ''playlistchange'' then [\<lambda>args. Some (HandlerError ''boom'')]
             else if name = ''error'' then [\<lambda>args. None] else [])
     vlc0 (Rejected (TransportError ''ECONNREFUSED'')) (Resolved (JBool True)) True =
   (vlc0\<lparr>playlist := JBool True\<rparr>, [], Rejected (TransportError ''ECONNREFUSED''),
    [Emit ''playlistchange'' [AJson (JBool True), AJson (JBool True)],
     Emit ''error'' [AError (HandlerError ''boom'')]])
   \<and> doTick_updateAll (\<lambda>name. []) vlc0
       (Rejected (TransportError ''ECONNREFUSED'')) (Resolved JNull) True =
   (vlc0, [Emit ''error'' [AError (TransportError ''ECONNREFUSED'')],
           UnhandledRejection (TransportError ''ECONNREFUSED'')])"
  by (simp add: doTick_updateAll_def updateAll_def updateStatus_def updatePlaylist_def
      vlc0_fields try_emit_def emit_def or_else_def Let_def)

section \<open>Construction: the probe and the loop\<close>

lemma doTick_loop_effect: "list_ex loop_effect (fst (snd (doTick ls st now now')))"
  by (simp add: doTick_def wait_def Let_def split: option.splits)

lemma doTick_no_error_event:
  "filter (is_event ''error'') (fst (snd (doTick ls st now now'))) = []"
  by (simp add: doTick_def wait_def Let_def split: option.splits)

lemma doTick_no_connect:
  "\<not> list_ex (is_event ''connect'') (fst (snd (doTick ls st now now')))"
  by (simp add: doTick_def wait_def Let_def split: option.splits)

text \<open>
  Claim C3, as the code has it. The constructor sends one request, the status fetch.
  When the probe fails, \<^verbatim>\<open>error\<close> is emitted once, with the failure; when it succeeds, no
  \<^verbatim>\<open>error\<close> is emitted. \<^verbatim>\<open>_doTick\<close> is entered if and only if \<^verbatim>\<open>autoUpdate\<close> is enabled and
  the probe succeeded or the emission of \<^verbatim>\<open>error\<close> returned: \<^verbatim>\<open>then\<close> follows \<^verbatim>\<open>catch\<close>, so
  a failed probe whose error is delivered to a listener starts the loop as a successful
  probe does. The loop is not entered after a failed probe only when the emission of
  \<^verbatim>\<open>error\<close> throws (no listener of \<^verbatim>\<open>error\<close>, or one that throws).
\<close>

theorem constructor_probe_starts_loop:
  "req_path (fst (snd (constructor options t response))) = ''/requests/status.json''
   \<and> filter (is_event ''error'') (snd (constructor_probe ls st (Rejected e) now now')) =
       [Emit ''error'' [AError e]]
   \<and> filter (is_event ''error'') (snd (constructor_probe ls st (Resolved v) now now')) = []
   \<and> (list_ex loop_effect (snd (constructor_probe ls st probe now now')) \<longleftrightarrow>
        autoUpdate st \<and>
        (case probe of
           Resolved v \<Rightarrow> True
         | Rejected e \<Rightarrow> emit ls ''error'' [AError e] = None))"
proof -
  obtain st1 effs thrown where d: "doTick ls st now now' = (st1, effs, thrown)"
    by (cases "doTick ls st now now'")
  with doTick_loop_effect [of ls st now now'] doTick_no_error_event [of ls st now now']
  have l: "list_ex loop_effect effs" and n: "filter (is_event ''error'') effs = []"
    by simp_all
  have "req_path (fst (snd (constructor options t response))) = ''/requests/status.json''"
    by (simp add: constructor_def sendCommand_def Let_def)
  moreover
  have "filter (is_event ''error'') (snd (constructor_probe ls st (Rejected e) now now')) =
       [Emit ''error'' [AError e]]"
    using d n by (cases thrown) (simp_all add: constructor_probe_def split: option.splits)
  moreover
  have "filter (is_event ''error'') (snd (constructor_probe ls st (Resolved v) now now')) = []"
    using d n by (cases thrown) (simp_all add: constructor_probe_def split: option.splits)
  moreover
  have "list_ex loop_effect (snd (constructor_probe ls st probe now now')) \<longleftrightarrow>
        autoUpdate st \<and>
        (case probe of
           Resolved v \<Rightarrow> True
         | Rejected e \<Rightarrow> emit ls ''error'' [AError e] = None)"
    using d l
    by (cases probe; cases thrown) (auto simp: constructor_probe_def split: option.splits)
  ultimately show ?thesis by blast
qed

text \<open>
  Claim C3 as stated fails: the probe is refused, a listener of \<^verbatim>\<open>error\<close> is registered,
  \<^verbatim>\<open>autoUpdate\<close> has its default; the error is emitted and the loop starts all the same (it
  fires, starts a refresh and sets the timer).
\<close>

theorem constructor_probe_failed_probe_starts_loop:
  "constructor_probe (\<lambda>name. if name = ''error'' then [\<lambda>args. None] else []) vlc0
      (Rejected (TransportError ''ECONNREFUSED'')) 1000 2000 =
     (vlc0\<lparr>prev := 1000, target := 100003000 / 3\<rparr>,
      [Emit ''error'' [AError (TransportError ''ECONNREFUSED'')],
       Emit ''tick'' [ANumber (1 / 1000000)], UpdateAll, SetTimeout (100 / 3)])"
  by (simp add: constructor_probe_def doTick_def wait_def emit_def vlc0_fields Let_def
      nano2s_def s2nano_def)

text \<open>
  Claim C4 against the code: whatever the listeners, the state, the outcome of the probe
  and the clock, the chain of the constructor emits no \<^verbatim>\<open>connect\<close> event.
\<close>

theorem constructor_never_emits_connect:
  "\<not> list_ex (is_event ''connect'') (snd (constructor_probe ls st probe now now'))"
proof -
  obtain st1 effs thrown where d: "doTick ls st now now' = (st1, effs, thrown)"
    by (cases "doTick ls st now now'")
  with doTick_no_connect [of ls st now now'] have "\<not> list_ex (is_event ''connect'') effs"
    by simp
  with d show ?thesis
    by (cases probe; cases thrown) (simp_all add: constructor_probe_def split: option.splits)
qed

section \<open>Deep equality is equality up to the order of keys\<close>

lemma sort_keys_atom [simp]:
  "sort_keys b = JNull \<longleftrightarrow> b = JNull"
  "sort_keys b = JBool x \<longleftrightarrow> b = JBool x"
  "sort_keys b = JNumber r \<longleftrightarrow> b = JNumber r"
  "sort_keys b = JString s \<longleftrightarrow> b = JString s"
  "JNull = sort_keys b \<longleftrightarrow> b = JNull"
  "JBool x = sort_keys b \<longleftrightarrow> b = JBool x"
  "JNumber r = sort_keys b \<longleftrightarrow> b = JNumber r"
  "JString s = sort_keys b \<longleftrightarrow> b = JString s"
  by (cases b; auto)+

lemma list_all2_by_map:
  assumes "\<And>x y. x \<in> set xs \<Longrightarrow> y \<in> set ys \<Longrightarrow> P x y \<longleftrightarrow> f x = f y"
  shows "list_all2 P xs ys \<longleftrightarrow> map f xs = map f ys"
  using assms
proof (induction xs arbitrary: ys)
  case Nil
  then show ?case by auto
next
  case (Cons x xs)
  then show ?case by (cases ys) auto
qed

text \<open>Field lists with distinct keys sort to the same list exactly when they have the
  same fields.\<close>

lemma sort_key_fst_eq_iff:
  assumes "distinct (map fst A)" and "distinct (map fst B)"
  shows "sort_key fst A = sort_key fst B \<longleftrightarrow> set A = set B"
proof
  assume "sort_key fst A = sort_key fst B"
  then have "mset (sort_key fst A) = mset (sort_key fst B)" by simp
  then have "mset A = mset B" by simp
  then show "set A = set B" by (rule mset_eq_setD)
next
  assume eq: "set A = set B"
  from assms have dA: "distinct A" and dB: "distinct B" by (simp_all add: distinct_map)
  with eq have m: "mset A = mset B" by (simp add: set_eq_iff_mset_eq_distinct)
  have inj: "inj_on fst (set A)" using assms(1) by (simp add: distinct_map)
  show "sort_key fst A = sort_key fst B"
    by (rule sort_key_inj_key_eq) (simp_all add: m inj)
qed

lemma equal_fields_iff:
  assumes dk: "distinct (map fst kvs)" and dk': "distinct (map fst kvs')"
    and ih: "\<And>k v v'. (k, v) \<in> set kvs \<Longrightarrow> (k, v') \<in> set kvs' \<Longrightarrow>
               equal v v' \<longleftrightarrow> g v = g v'"
  shows "(length kvs = length kvs' \<and>
          list_all (\<lambda>kv. case map_of kvs' (fst kv) of
                            None \<Rightarrow> False
                          | Some v' \<Rightarrow> equal (snd kv) v') kvs)
         \<longleftrightarrow> set (map (\<lambda>kv. (fst kv, g (snd kv))) kvs) =
              set (map (\<lambda>kv. (fst kv, g (snd kv))) kvs')"
    (is "?L \<longleftrightarrow> ?R")
proof
  let ?A = "map (\<lambda>kv. (fst kv, g (snd kv))) kvs"
  let ?B = "map (\<lambda>kv. (fst kv, g (snd kv))) kvs'"
  have fA: "map fst ?A = map fst kvs" and fB: "map fst ?B = map fst kvs'" by simp_all
  have dA: "distinct ?A" using dk fA by (metis distinct_map)
  have dB: "distinct ?B" using dk' fB by (metis distinct_map)
  have cA: "card (set ?A) = length kvs" using distinct_card [OF dA] by simp
  have cB: "card (set ?B) = length kvs'" using distinct_card [OF dB] by simp
  {
    assume L: ?L
    have sub: "set ?A \<subseteq> set ?B"
    proof
      fix p assume "p \<in> set ?A"
      then obtain k v where kv: "(k, v) \<in> set kvs" and p: "p = (k, g v)" by auto
      from L kv obtain v' where m: "map_of kvs' k = Some v'" and e: "equal v v'"
        by (auto simp: list_all_iff split: option.splits)
      from m dk' have kv': "(k, v') \<in> set kvs'" by simp
      with ih [OF kv kv'] e have "g v = g v'" by simp
      with kv' p show "p \<in> set ?B" by force
    qed
    have "card (set ?A) = card (set ?B)"
      using cA cB L by simp
    with sub show ?R by (intro card_subset_eq) simp_all
  }
  {
    assume R: ?R
    have "card (set ?A) = card (set ?B)" using R by simp
    then have len: "length kvs = length kvs'" using cA cB by simp
    have "list_all (\<lambda>kv. case map_of kvs' (fst kv) of
                            None \<Rightarrow> False
                          | Some v' \<Rightarrow> equal (snd kv) v') kvs"
      unfolding list_all_iff
    proof
      fix kv assume mem: "kv \<in> set kvs"
      obtain k v where kv: "kv = (k, v)" by (cases kv)
      from mem kv have "(k, g v) \<in> set ?A" by force
      with R have "(k, g v) \<in> set ?B" by simp
      then obtain v' where kv': "(k, v') \<in> set kvs'" and gv: "g v' = g v" by auto
      from kv' dk' have m: "map_of kvs' k = Some v'" by simp
      from ih [of k v v'] mem kv kv' gv have "equal v v'" by simp
      with m kv
      show "case map_of kvs' (fst kv) of None \<Rightarrow> False | Some v' \<Rightarrow> equal (snd kv) v'"
        by simp
    qed
    with len show ?L by simp
  }
qed

lemma equal_iff_sort_keys:
  "parsed a \<Longrightarrow> parsed b \<Longrightarrow> equal a b \<longleftrightarrow> sort_keys a = sort_keys b"
proof (induction a arbitrary: b)
  case (JArray xs)
  show ?case
  proof (cases b)
    case (JArray ys)
    have "list_all2 equal xs ys \<longleftrightarrow> map sort_keys xs = map sort_keys ys"
    proof (rule list_all2_by_map)
      fix x y assume "x \<in> set xs" "y \<in> set ys"
      with JArray.IH [of x y] JArray.prems JArray
      show "equal x y \<longleftrightarrow> sort_keys x = sort_keys y"
        by (simp add: list_all_iff)
    qed
    with JArray show ?thesis by simp
  qed auto
next
  case (JObject kvs)
  show ?case
  proof (cases b)
    case b: (JObject kvs')
    let ?g = "\<lambda>kv. (fst kv, sort_keys (snd kv))"
    from JObject.prems b have dk: "distinct (map fst kvs)" and dk': "distinct (map fst kvs')"
      and pk: "\<And>kv. kv \<in> set kvs \<Longrightarrow> parsed (snd kv)"
      and pk': "\<And>kv. kv \<in> set kvs' \<Longrightarrow> parsed (snd kv)"
      by (simp_all add: list_all_iff)
    have ih: "equal v v' \<longleftrightarrow> sort_keys v = sort_keys v'"
      if "(k, v) \<in> set kvs" "(k, v') \<in> set kvs'" for k v v'
      using JObject.IH [of "(k, v)" v v'] that pk [of "(k, v)"] pk' [of "(k, v')"] by simp
    have dA: "distinct (map fst (map ?g kvs))" and dB: "distinct (map fst (map ?g kvs'))"
      using dk dk' by (simp_all add: comp_def)
    have "equal (JObject kvs) b \<longleftrightarrow> set (map ?g kvs) = set (map ?g kvs')"
      using equal_fields_iff [OF dk dk', of sort_keys] ih b by simp
    also have "\<dots> \<longleftrightarrow> sort_key fst (map ?g kvs) = sort_key fst (map ?g kvs')"
      using sort_key_fst_eq_iff [OF dA dB] by simp
    finally show ?thesis using b by simp
  qed auto
qed auto

section \<open>The change detector\<close>

text \<open>
  Claim C7. With change events enabled, a successful refresh emits \<^verbatim>\<open>statuschange\<close> if
  and only if the fetched status is not deep-equal to the cached one. On parsed values
  deep equality is equality up to the order of keys at every depth, so the event fires if
  and only if the two values differ in more than the order of their keys.
\<close>

theorem statuschange_iff_structurally_unequal:
  assumes "changeEvents st"
  shows "(list_ex (is_event ''statuschange'') (fst (snd (updateStatus ls st (Resolved v))))
            \<longleftrightarrow> \<not> equal v (status st))
       \<and> (parsed v \<and> parsed (status st) \<longrightarrow>
            (list_ex (is_event ''statuschange'') (fst (snd (updateStatus ls st (Resolved v))))
               \<longleftrightarrow> sort_keys v \<noteq> sort_keys (status st)))"
proof -
  have fires: "list_ex (is_event ''statuschange'') (fst (snd (updateStatus ls st (Resolved v))))
      \<longleftrightarrow> \<not> equal v (status st)"
    using assms by (auto simp: updateStatus_def try_emit_def split: option.splits)
  with equal_iff_sort_keys [of v "status st"] show ?thesis by simp
qed

text \<open>
  The theorem on a cached status and a fetched one that differ only in the order of
  their keys, also of a nested object: no event. With another volume: an event.
\<close>

theorem statuschange_iff_structurally_unequal_witness:
  "\<not> list_ex (is_event ''statuschange'')
      (fst (snd (updateStatus (\<lambda>name. [])
         (vlc0\<lparr>status := JObject [(''volume'', JNumber 256),
                                   (''information'', JObject [(''chapter'', JNumber 0),
                                                              (''title'', JNumber 1)])]\<rparr>)
         (Resolved (JObject [(''information'', JObject [(''title'', JNumber 1),
                                                        (''chapter'', JNumber 0)]),
                             (''volume'', JNumber 256)])))))
   \<and> list_ex (is_event ''statuschange'')
      (fst (snd (updateStatus (\<lambda>name. [])
         (vlc0\<lparr>status := JObject [(''volume'', JNumber 256),
                                   (''information'', JObject [(''chapter'', JNumber 0),
                                                              (''title'', JNumber 1)])]\<rparr>)
         (Resolved (JObject [(''information'', JObject [(''title'', JNumber 1),
                                                        (''chapter'', JNumber 0)]),
                             (''volume'', JNumber 128)])))))"
  using statuschange_iff_structurally_unequal [of
      "vlc0\<lparr>status := JObject [(''volume'', JNumber 256),
                                (''information'', JObject [(''chapter'', JNumber 0),
                                                           (''title'', JNumber 1)])]\<rparr>"
      "\<lambda>name. []"
      "JObject [(''information'', JObject [(''title'', JNumber 1), (''chapter'', JNumber 0)]),
                (''volume'', JNumber 256)]"]
  by (simp add: updateStatus_def vlc0_fields try_emit_def emit_def)

end
